theory Spec2Isabelle
  imports Complex_Main "HOL-Library.Word"
begin

section \<open>Numbers\<close>

text \<open>
  A JavaScript \<open>number\<close> is modelled as a real or the value \<open>NaN\<close>. Arithmetic on finite
  numbers is the exact arithmetic of the reals (rounding error and the infinities are left
  out); an operation with a \<open>NaN\<close> operand gives \<open>NaN\<close>, and every comparison with \<open>NaN\<close>
  is false, as in the language. The source computes in binary doubles: a sum or a product
  there is the exact one rounded to 53 bits. The two agree where the operands and the
  result are doubles themselves, as for the calibration offsets that are whole multiples of
  one half; a decimal such as 13.45 is not a double, and ten times a level with such an
  offset can fall on the other side of a rounding tie than the exact product does.
\<close>

datatype number = NaN | Num real

fun num_add :: "number \<Rightarrow> number \<Rightarrow> number" where
  "num_add (Num a) (Num b) = Num (a + b)"
| "num_add _ _ = NaN"

fun num_mul :: "number \<Rightarrow> number \<Rightarrow> number" where
  "num_mul (Num a) (Num b) = Num (a * b)"
| "num_mul _ _ = NaN"

text \<open>Division by a non-zero finite number (the only divisor the program uses is 10).\<close>

fun num_div :: "number \<Rightarrow> number \<Rightarrow> number" where
  "num_div (Num a) (Num b) = (if b = 0 then NaN else Num (a / b))"
| "num_div _ _ = NaN"

fun num_gt :: "number \<Rightarrow> number \<Rightarrow> bool" where
  "num_gt (Num a) (Num b) = (a > b)"
| "num_gt _ _ = False"

text \<open>\<open>Math.round\<close>: the nearest integer, a tie going towards plus infinity.\<close>

definition round_half_up :: "real \<Rightarrow> int" where
  "round_half_up x = \<lfloor>x + 1 / 2\<rfloor>"

fun Math_round :: "number \<Rightarrow> number" where
  "Math_round (Num x) = Num (of_int (round_half_up x))"
| "Math_round NaN = NaN"

text \<open>\<open>a || b\<close> on finite numbers: \<open>a\<close> unless it is zero (the only falsy finite number).\<close>

definition or_else :: "real \<Rightarrow> real \<Rightarrow> real" where
  "or_else a b = (if a = 0 then b else a)"

section \<open>types.ts\<close>

datatype DiagnosticStatus = NORMAL | ABNORMAL | IDLE

record MachineStandard =
  ms_id :: string
  name :: string
  category :: string
  maxDb :: real
  peakFreqRange :: "real \<times> real"

record AudioMetrics =
  db :: number
  peakFrequency :: real
  isStable :: bool
  status :: DiagnosticStatus

record HistoryEntry =
  entry_id :: string
  machineId :: string
  machineName :: string
  timestamp :: nat
  entry_status :: DiagnosticStatus
  entry_db :: number
  entry_peakFrequency :: real

section \<open>The audio processor\<close>

text \<open>
  The Web Audio objects the class holds, reduced to the fields the class reads or sets.
  A \<open>Uint8Array\<close> is a list of 8-bit words. An analyser takes as \<open>fftSize\<close> only a
  power of two from 32 to 32768, and a context's sample rate is positive; the theorems
  that depend on either say so.
\<close>

record AudioContext =
  sampleRate :: real
  ctx_closed :: bool

record AnalyserNode =
  fftSize :: nat
  smoothingTimeConstant :: real

record MediaStream =
  tracks_stopped :: bool

record AudioProcessor =
  audioCtx :: "AudioContext option"
  analyser :: "AnalyserNode option"
  stream :: "MediaStream option"
  calibrationOffset :: number

definition new_AudioProcessor :: "number \<Rightarrow> AudioProcessor" where
  "new_AudioProcessor offset =
     \<lparr>audioCtx = None, analyser = None, stream = None, calibrationOffset = offset\<rparr>"

datatype failure = DeviceUnavailable

text \<open>
  \<open>initialize\<close>: the platform supplies the context's sample rate and either grants the
  microphone or rejects the request; a rejection leaves the method by an exception. The
  filter chain carries no data the metrics read and is left out.
\<close>

definition initialize :: "real \<Rightarrow> bool \<Rightarrow> AudioProcessor \<Rightarrow> failure + AudioProcessor" where
  "initialize rate granted p =
     (let p1 = p\<lparr>audioCtx := Some \<lparr>sampleRate = rate, ctx_closed = False\<rparr>\<rparr>
      in if \<not> granted then Inl DeviceUnavailable
         else Inr (p1\<lparr>stream := Some \<lparr>tracks_stopped = False\<rparr>,
                      analyser := Some \<lparr>fftSize = 2048, smoothingTimeConstant = 1 / 2\<rparr>\<rparr>))"

definition setCalibration :: "number \<Rightarrow> AudioProcessor \<Rightarrow> AudioProcessor" where
  "setCalibration offset p = p\<lparr>calibrationOffset := offset\<rparr>"

definition frequencyBinCount :: "AnalyserNode \<Rightarrow> nat" where
  "frequencyBinCount a = fftSize a div 2"

text \<open>The loop over \<open>timeData\<close> that accumulates the squared, centred samples.\<close>

fun sum_loop :: "8 word list \<Rightarrow> real \<Rightarrow> real" where
  "sum_loop [] sm = sm"
| "sum_loop (t # ts) sm =
     (let val = (real_of_int (uint t) - 128) / 128 in sum_loop ts (sm + val * val))"

text \<open>
  The root mean square. (On an empty block the source divides zero by zero and \<open>rms\<close> is
  \<open>NaN\<close>, which \<open>||\<close> replaces by the floor and \<open>>\<close> makes unstable; here it is 0, with
  the same two outcomes.)
\<close>

definition rms_of :: "8 word list \<Rightarrow> real" where
  "rms_of timeData = sqrt (sum_loop timeData 0 / real (length timeData))"

definition level_db :: "number \<Rightarrow> real \<Rightarrow> number" where
  "level_db offset rms =
     num_add (Num (20 * log 10 (or_else rms (1 / 10 ^ 6)) + 100)) offset"

text \<open>
  The loop over \<open>dataArray\<close>: \<open>i\<close> is the running index, \<open>maxVal\<close> and \<open>maxIndex\<close> start
  at \<open>-1\<close> and change only on a strictly larger value.
\<close>

fun peak_loop :: "8 word list \<Rightarrow> int \<Rightarrow> int \<Rightarrow> int \<Rightarrow> int \<times> int" where
  "peak_loop [] i maxVal maxIndex = (maxVal, maxIndex)"
| "peak_loop (d # ds) i maxVal maxIndex =
     (if uint d > maxVal then peak_loop ds (i + 1) (uint d) i
      else peak_loop ds (i + 1) maxVal maxIndex)"

definition find_peak :: "8 word list \<Rightarrow> int \<times> int" where
  "find_peak dataArray = peak_loop dataArray 0 (- 1) (- 1)"

definition bin_frequency :: "AudioContext \<Rightarrow> AnalyserNode \<Rightarrow> int \<Rightarrow> real" where
  "bin_frequency c a maxIndex = real_of_int maxIndex * (sampleRate c / real (fftSize a))"

text \<open>The diagnostic logic, on the level and the peak frequency before they are rounded.\<close>

definition classify :: "MachineStandard \<Rightarrow> number \<Rightarrow> real \<Rightarrow> int \<Rightarrow> DiagnosticStatus" where
  "classify standard dbv peakFreq maxVal =
     (let dbExceeded = num_gt dbv (Num (maxDb standard));
          freqAbnormal = (peakFreq > snd (peakFreqRange standard)
                          \<or> peakFreq < fst (peakFreqRange standard))
      in if dbExceeded \<or> (maxVal > 200 \<and> freqAbnormal) then ABNORMAL else NORMAL)"

definition zero_metrics :: AudioMetrics where
  "zero_metrics = \<lparr>db = Num 0, peakFrequency = 0, isStable = False, status = IDLE\<rparr>"

text \<open>
  \<open>getMetrics\<close>: \<open>dataArray\<close> and \<open>timeData\<close> are the two byte arrays as the analyser has
  filled them for this poll (\<open>frequencyBinCount\<close> and \<open>fftSize\<close> entries).
\<close>

definition getMetrics ::
    "AudioProcessor \<Rightarrow> MachineStandard \<Rightarrow> 8 word list \<Rightarrow> 8 word list \<Rightarrow> AudioMetrics" where
  "getMetrics p standard dataArray timeData =
     (case (analyser p, audioCtx p) of
        (Some a, Some c) \<Rightarrow>
          (let rms = rms_of timeData;
               dbv = level_db (calibrationOffset p) rms;
               (maxVal, maxIndex) = find_peak dataArray;
               peakFreq = bin_frequency c a maxIndex
           in \<lparr>db = num_div (Math_round (num_mul dbv (Num 10))) (Num 10),
               peakFrequency = real_of_int (round_half_up peakFreq),
               isStable = (rms > 1 / 1000),
               status = classify standard dbv peakFreq maxVal\<rparr>)
      | _ \<Rightarrow> zero_metrics)"

definition initialized :: "AudioProcessor \<Rightarrow> bool" where
  "initialized p = (analyser p \<noteq> None \<and> audioCtx p \<noteq> None)"

section \<open>constants.ts\<close>

definition washing_machine :: MachineStandard where
  "washing_machine =
     \<lparr>ms_id = ''m1'', name = ''Washing Machine - Spin Cycle'', category = ''Home Appliance'',
      maxDb = 72, peakFreqRange = (50, 200)\<rparr>"

definition CALIBRATION_STORAGE_KEY :: string where
  "CALIBRATION_STORAGE_KEY = ''acoustic_tool_calibration_v1''"

definition DEFAULT_CALIBRATION_OFFSET :: number where
  "DEFAULT_CALIBRATION_OFFSET = Num (- 20)"

text \<open>\<open>stop\<close>: stops the stream's tracks and closes the context; it clears no field.\<close>

definition stop :: "AudioProcessor \<Rightarrow> AudioProcessor" where
  "stop p =
     p\<lparr>stream := map_option (\<lambda>st. st\<lparr>tracks_stopped := True\<rparr>) (stream p),
       audioCtx := map_option (\<lambda>c. c\<lparr>ctx_closed := True\<rparr>) (audioCtx p)\<rparr>"

section \<open>parseFloat\<close>

text \<open>
  The built-in \<open>parseFloat\<close>, for decimal literals: leading white space, an optional sign,
  digits with an optional fraction, an optional exponent; the longest such prefix is read
  and the rest of the string ignored; \<open>NaN\<close> when there is no digit. (The literal
  \<open>Infinity\<close> is outside the number model and reads as \<open>NaN\<close> here.)
\<close>

definition is_digit :: "char \<Rightarrow> bool" where
  "is_digit ch = (ch \<in> set ''0123456789'')"

definition is_space :: "char \<Rightarrow> bool" where
  "is_space ch = (ch \<in> {CHR '' '', CHR 0x09, CHR 0x0A, CHR 0x0B, CHR 0x0C, CHR 0x0D})"

fun digits_value :: "string \<Rightarrow> nat \<Rightarrow> nat" where
  "digits_value [] acc = acc"
| "digits_value (ch # cs) acc = digits_value cs (10 * acc + (of_char ch - 48))"

fun read_sign :: "string \<Rightarrow> bool \<times> string" where
  "read_sign [] = (False, [])"
| "read_sign (ch # cs) =
     (if ch = CHR ''-'' then (True, cs) else if ch = CHR ''+'' then (False, cs)
      else (False, ch # cs))"

fun read_fraction :: "string \<Rightarrow> string \<times> string" where
  "read_fraction [] = ([], [])"
| "read_fraction (ch # cs) =
     (if ch = CHR ''.'' then (takeWhile is_digit cs, dropWhile is_digit cs)
      else ([], ch # cs))"

fun read_exponent :: "string \<Rightarrow> int" where
  "read_exponent [] = 0"
| "read_exponent (ch # cs) =
     (if ch = CHR ''e'' \<or> ch = CHR ''E''
      then (let (neg, r) = read_sign cs; ds = takeWhile is_digit r
            in if ds = [] then 0
               else if neg then - int (digits_value ds 0) else int (digits_value ds 0))
      else 0)"

definition parseFloat :: "string \<Rightarrow> number" where
  "parseFloat str =
     (let (neg, s1) = read_sign (dropWhile is_space str);
          ip = takeWhile is_digit s1;
          (fp, s3) = read_fraction (dropWhile is_digit s1);
          ex = read_exponent s3;
          m = real (digits_value ip 0) + real (digits_value fp 0) / 10 ^ length fp;
          v = (if ex \<ge> 0 then m * 10 ^ nat ex else m / 10 ^ nat (- ex))
      in if ip = [] \<and> fp = [] then NaN else Num (if neg then - v else v))"

section \<open>The application component\<close>

definition HISTORY_STORAGE_KEY :: string where
  "HISTORY_STORAGE_KEY = ''acoustic_tool_history_v1''"

text \<open>
  \<open>localStorage\<close> maps a key to a string; the history is stored as the JSON text of the
  list, kept here as the list itself.
\<close>

datatype stored = Text string | Json "HistoryEntry list"

text \<open>
  The state of the component: the hook variables and refs that the measurement logic
  reads or writes, and the storage. \<open>metricsRef\<close> is assigned from \<open>metrics\<close> by an effect
  after every render, so the two are set together. \<open>pendingStarts\<close> holds the processors
  of the calls of \<open>startMeasurement\<close> that are suspended at their \<open>await\<close>.
\<close>

record App =
  selectedMachine :: "MachineStandard option"
  isMeasuring :: bool
  hasFinishedTest :: bool
  metrics :: AudioMetrics
  freqData :: "8 word list"
  calibrationOffsetState :: number
  history :: "HistoryEntry list"
  countdown :: "int option"
  audioProcessorRef :: "AudioProcessor option"
  animationFrameRef :: "nat option"
  metricsRef :: AudioMetrics
  localStorage :: "string \<rightharpoonup> stored"
  pendingStarts :: "AudioProcessor list"

definition initial_App :: "(string \<rightharpoonup> stored) \<Rightarrow> App" where
  "initial_App ls =
     \<lparr>selectedMachine = None, isMeasuring = False, hasFinishedTest = False,
      metrics = zero_metrics, freqData = [],
      calibrationOffsetState =
        (case ls CALIBRATION_STORAGE_KEY of
           Some (Text saved) \<Rightarrow> if saved = [] then DEFAULT_CALIBRATION_OFFSET else parseFloat saved
         | _ \<Rightarrow> DEFAULT_CALIBRATION_OFFSET),
      history = (case ls HISTORY_STORAGE_KEY of Some (Json saved) \<Rightarrow> saved | _ \<Rightarrow> []),
      countdown = None, audioProcessorRef = None, animationFrameRef = None,
      metricsRef = zero_metrics, localStorage = ls, pendingStarts = []\<rparr>"

definition new_entry :: "string \<Rightarrow> nat \<Rightarrow> MachineStandard \<Rightarrow> AudioMetrics \<Rightarrow> HistoryEntry" where
  "new_entry uuid now machine finalMetrics =
     \<lparr>entry_id = uuid, machineId = ms_id machine, machineName = name machine,
      timestamp = now, entry_status = status finalMetrics, entry_db = db finalMetrics,
      entry_peakFrequency = peakFrequency finalMetrics\<rparr>"

text \<open>\<open>saveToHistory\<close>; \<open>uuid\<close> and \<open>now\<close> are what \<open>crypto.randomUUID\<close> and \<open>Date.now\<close> return.\<close>

definition saveToHistory :: "string \<Rightarrow> nat \<Rightarrow> MachineStandard \<Rightarrow> AudioMetrics \<Rightarrow> App \<Rightarrow> App" where
  "saveToHistory uuid now machine finalMetrics s =
     (let newEntry = new_entry uuid now machine finalMetrics;
          updatedHistory = take 50 (newEntry # history s)
      in s\<lparr>history := updatedHistory,
            localStorage := (localStorage s)(HISTORY_STORAGE_KEY \<mapsto> Json updatedHistory)\<rparr>)"

text \<open>
  \<open>startMeasurement\<close> is asynchronous. The call (\<open>startMeasurement_call\<close>) tests
  \<open>selectedMachine\<close>, constructs the processor with the current offset and suspends at
  \<open>await processor.initialize()\<close>; other handlers run while it is suspended. The
  continuation (\<open>startMeasurement_resume\<close>, for the suspended call at index \<open>i\<close>) runs
  when the platform has answered: \<open>rate\<close> and \<open>granted\<close> are its answers to
  \<open>initialize\<close>. On success it sets the ref and the three state variables without
  looking at the state again; the caught exception only raises an alert.
\<close>

definition startMeasurement_call :: "App \<Rightarrow> App" where
  "startMeasurement_call s =
     (case selectedMachine s of
        None \<Rightarrow> s
      | Some _ \<Rightarrow>
          s\<lparr>pendingStarts :=
               pendingStarts s @ [new_AudioProcessor (calibrationOffsetState s)]\<rparr>)"

definition startMeasurement_resume :: "nat \<Rightarrow> real \<Rightarrow> bool \<Rightarrow> App \<Rightarrow> App" where
  "startMeasurement_resume i rate granted s =
     (if i < length (pendingStarts s)
      then (let s1 = s\<lparr>pendingStarts := take i (pendingStarts s) @ drop (Suc i) (pendingStarts s)\<rparr>
            in case initialize rate granted (pendingStarts s ! i) of
                 Inr processor \<Rightarrow>
                   s1\<lparr>audioProcessorRef := Some processor, isMeasuring := True,
                      hasFinishedTest := False, countdown := Some 10\<rparr>
               | Inl _ \<Rightarrow> s1)
      else s)"

text \<open>A start that nothing interrupts: the call, then at once its own continuation.\<close>

definition startMeasurement :: "real \<Rightarrow> bool \<Rightarrow> App \<Rightarrow> App" where
  "startMeasurement rate granted s =
     startMeasurement_resume (length (pendingStarts s)) rate granted (startMeasurement_call s)"

text \<open>
  \<open>stopMeasurement\<close>. The processor is stopped and the ref cleared (the stopped
  processor is referenced nowhere else, so it leaves the state with the ref); the record
  is saved when \<open>isMeasuring\<close> and \<open>selectedMachine\<close> hold; the three flags are then set
  whatever the state was.
\<close>

definition stopMeasurement :: "string \<Rightarrow> nat \<Rightarrow> App \<Rightarrow> App" where
  "stopMeasurement uuid now s =
     (let s1 = (case audioProcessorRef s of
                  Some _ \<Rightarrow> s\<lparr>audioProcessorRef := None\<rparr>
                | None \<Rightarrow> s);
          s2 = (case selectedMachine s of
                  Some machine \<Rightarrow>
                    if isMeasuring s then saveToHistory uuid now machine (metricsRef s1) s1
                    else s1
                | None \<Rightarrow> s1);
          s3 = s2\<lparr>isMeasuring := False, countdown := None, hasFinishedTest := True\<rparr>
      in case animationFrameRef s3 of
           Some _ \<Rightarrow> s3\<lparr>animationFrameRef := None\<rparr>
         | None \<Rightarrow> s3)"

definition resetToMenu :: "string \<Rightarrow> nat \<Rightarrow> App \<Rightarrow> App" where
  "resetToMenu uuid now s =
     (stopMeasurement uuid now s)
       \<lparr>selectedMachine := None, hasFinishedTest := False,
        metrics := zero_metrics, metricsRef := zero_metrics\<rparr>"

definition clearHistory :: "bool \<Rightarrow> App \<Rightarrow> App" where
  "clearHistory confirmed s =
     (if confirmed
      then s\<lparr>history := [], localStorage := (localStorage s)(HISTORY_STORAGE_KEY := None)\<rparr>
      else s)"

text \<open>
  One run of \<open>update\<close>, the animation-frame callback of the polling effect: \<open>dataArray\<close>
  and \<open>timeData\<close> are what the analyser holds, \<open>handle\<close> what \<open>requestAnimationFrame\<close>
  returns.
\<close>

definition update :: "8 word list \<Rightarrow> 8 word list \<Rightarrow> nat \<Rightarrow> App \<Rightarrow> App" where
  "update dataArray timeData handle s =
     (case (selectedMachine s, audioProcessorRef s) of
        (Some machine, Some processor) \<Rightarrow>
          if isMeasuring s
          then (let newMetrics = getMetrics processor machine dataArray timeData
                in s\<lparr>metrics := newMetrics, metricsRef := newMetrics,
                      freqData := (if analyser processor = None then [] else dataArray),
                      animationFrameRef := Some handle\<rparr>)
          else s
      | _ \<Rightarrow> s)"

text \<open>
  The countdown effect: while the countdown is positive an interval timer decrements it
  (\<open>countdown_tick\<close>); when it is zero the effect calls \<open>stopMeasurement\<close>
  (\<open>countdown_effect\<close>).
\<close>

definition countdown_tick :: "App \<Rightarrow> App" where
  "countdown_tick s =
     (case countdown s of
        Some n \<Rightarrow> if n > 0 then s\<lparr>countdown := Some (n - 1)\<rparr> else s
      | None \<Rightarrow> s)"

definition countdown_effect :: "string \<Rightarrow> nat \<Rightarrow> App \<Rightarrow> App" where
  "countdown_effect uuid now s =
     (if countdown s = Some 0 then stopMeasurement uuid now s else s)"

definition handleCalibrationChange :: "string \<Rightarrow> App \<Rightarrow> App" where
  "handleCalibrationChange val s =
     (let num = parseFloat val
      in s\<lparr>calibrationOffsetState := num,
            localStorage := (localStorage s)(CALIBRATION_STORAGE_KEY \<mapsto> Text val),
            audioProcessorRef := map_option (setCalibration num) (audioProcessorRef s)\<rparr>)"

definition selectMachine :: "MachineStandard \<Rightarrow> App \<Rightarrow> App" where
  "selectMachine m s = s\<lparr>selectedMachine := Some m\<rparr>"

text \<open>
  The handlers as events, and the states the component can reach from a start with any
  storage. No handler is guarded by what the page shows.
\<close>

datatype event =
    SelectMachine MachineStandard
  | StartCall
  | StartResume nat real bool
  | Stop string nat
  | Reset string nat
  | Expire string nat
  | Tick
  | Poll "8 word list" "8 word list" nat
  | CalibrationChange string
  | ClearHistory bool

fun step :: "event \<Rightarrow> App \<Rightarrow> App" where
  "step (SelectMachine m) s = selectMachine m s"
| "step StartCall s = startMeasurement_call s"
| "step (StartResume i rate granted) s = startMeasurement_resume i rate granted s"
| "step (Stop uuid now) s = stopMeasurement uuid now s"
| "step (Reset uuid now) s = resetToMenu uuid now s"
| "step (Expire uuid now) s = countdown_effect uuid now s"
| "step Tick s = countdown_tick s"
| "step (Poll dataArray timeData handle) s = update dataArray timeData handle s"
| "step (CalibrationChange val) s = handleCalibrationChange val s"
| "step (ClearHistory confirmed) s = clearHistory confirmed s"

inductive reachable :: "App \<Rightarrow> bool" where
  reachable_init: "reachable (initial_App ls)"
| reachable_step: "reachable s \<Longrightarrow> reachable (step e s)"

text \<open>
  The session states of the specification, read off the component's state: \<open>RUNNING\<close>
  while measuring; otherwise \<open>Idle\<close> with no machine selected, \<open>FINISHED\<close> with a machine
  and the finished flag, \<open>ARMED\<close> with a machine and no finished flag.
\<close>

datatype session_state = Idle | ARMED | RUNNING | FINISHED

definition session_state_of :: "App \<Rightarrow> session_state" where
  "session_state_of s =
     (if isMeasuring s then RUNNING
      else if selectedMachine s = None then Idle
      else if hasFinishedTest s then FINISHED else ARMED)"

section \<open>Concrete inputs\<close>

text \<open>
  A processor as \<open>initialize\<close> leaves it at a sample rate of 44100 Hz with the default
  offset, a silent block of 2048 samples and a spectrum whose 1024 bins are all zero.
\<close>

definition ready_processor :: AudioProcessor where
  "ready_processor =
     \<lparr>audioCtx = Some \<lparr>sampleRate = 44100, ctx_closed = False\<rparr>,
      analyser = Some \<lparr>fftSize = 2048, smoothingTimeConstant = 1 / 2\<rparr>,
      stream = Some \<lparr>tracks_stopped = False\<rparr>,
      calibrationOffset = Num (- 20)\<rparr>"

definition silent_block :: "8 word list" where
  "silent_block = replicate 2048 128"

definition flat_spectrum :: "8 word list" where
  "flat_spectrum = replicate 1024 0"

definition full_history :: "HistoryEntry list" where
  "full_history = replicate 50 (new_entry ''old'' 0 washing_machine zero_metrics)"

definition full_App :: App where
  "full_App = initial_App [HISTORY_STORAGE_KEY \<mapsto> Json full_history]"

definition tied_spectrum :: "8 word list" where
  "tied_spectrum = [3, 250, 7, 250]"

text \<open>
  States of the component: a machine selected, a measurement started, the countdown run
  down to zero by ten ticks, and the session stopped. In \<open>abandoned_App\<close> the start was
  called with a machine selected, the user went back to the menu while the call was
  suspended, and the microphone was then granted.
\<close>

fun ticks :: "nat \<Rightarrow> App \<Rightarrow> App" where
  "ticks 0 s = s"
| "ticks (Suc n) s = ticks n (step Tick s)"

definition armed_App :: App where
  "armed_App = step (SelectMachine washing_machine) (initial_App Map.empty)"

definition running_App :: App where
  "running_App = step (StartResume 0 44100 True) (step StartCall armed_App)"

definition abandoned_App :: App where
  "abandoned_App =
     step (StartResume 0 44100 True) (step (Reset ''r0'' 0) (step StartCall armed_App))"

definition expiring_App :: App where
  "expiring_App = ticks 10 running_App"

definition finished_App :: App where
  "finished_App = step (Stop ''r1'' 1) expiring_App"

section \<open>The invariant of the session\<close>

text \<open>
  The processor ref is set exactly while measuring; the countdown and the animation-frame
  handle are set only while measuring. (That a machine is selected while measuring is not
  an invariant: see \<open>abandoned_App\<close>.)
\<close>

definition session_invariant :: "App \<Rightarrow> bool" where
  "session_invariant s =
     ((isMeasuring s \<longleftrightarrow> audioProcessorRef s \<noteq> None)
      \<and> (countdown s \<noteq> None \<longrightarrow> isMeasuring s)
      \<and> (animationFrameRef s \<noteq> None \<longrightarrow> isMeasuring s))"

section \<open>Metrics of an uninitialized and of an initialized processor\<close>

lemma getMetrics_initialized:
  assumes "analyser p = Some a" and "audioCtx p = Some c"
  shows "getMetrics p standard dataArray timeData =
      \<lparr>db = num_div (Math_round (num_mul (level_db (calibrationOffset p) (rms_of timeData))
                                           (Num 10))) (Num 10),
       peakFrequency =
         real_of_int (round_half_up (bin_frequency c a (snd (find_peak dataArray)))),
       isStable = (rms_of timeData > 1 / 1000),
       status = classify standard (level_db (calibrationOffset p) (rms_of timeData))
                  (bin_frequency c a (snd (find_peak dataArray))) (fst (find_peak dataArray))\<rparr>"
  using assms by (simp add: getMetrics_def Let_def split_beta)

lemma getMetrics_uninitialized:
  assumes "\<not> initialized p"
  shows "getMetrics p standard dataArray timeData = zero_metrics"
  using assms by (auto simp: getMetrics_def initialized_def split: option.splits)

lemma classify_cases: "classify standard dbv peakFreq maxVal \<in> {NORMAL, ABNORMAL}"
  by (simp add: classify_def Let_def)


section \<open>The level: the floor of the logarithm and the rounding\<close>

lemma log_floor: "log 10 (1 / 1000000) = - 6"
proof -
  have "log 10 ((10::real) ^ 6) = 6"
    using log_pow_cancel [of 10 6] by simp
  then show ?thesis by (simp add: log_divide)
qed

lemma sum_loop_acc: "sum_loop ts sm = sm + sum_loop ts 0"
proof (induction ts arbitrary: sm)
  case Nil
  show ?case by simp
next
  case (Cons t ts)
  show ?case
    using Cons.IH [of "sm + ((real_of_int (uint t) - 128) / 128) * ((real_of_int (uint t) - 128) / 128)"]
          Cons.IH [of "((real_of_int (uint t) - 128) / 128) * ((real_of_int (uint t) - 128) / 128)"]
    by (simp add: Let_def)
qed

lemma sum_loop_sum_list:
  "sum_loop ts 0 = (\<Sum>t\<leftarrow>ts. ((real_of_int (uint t) - 128) / 128)\<^sup>2)"
proof (induction ts)
  case Nil
  show ?case by simp
next
  case (Cons t ts)
  then show ?case
    using sum_loop_acc [of ts "((real_of_int (uint t) - 128) / 128) * ((real_of_int (uint t) - 128) / 128)"]
    by (simp add: Let_def power2_eq_square)
qed




lemma rms_nonneg: "0 \<le> rms_of timeData"
proof -
  have "0 \<le> sum_loop timeData 0"
    unfolding sum_loop_sum_list by (rule sum_list_nonneg) auto
  then show ?thesis by (simp add: rms_of_def)
qed


lemma round_half_up_near: "\<bar>real_of_int (round_half_up x) - x\<bar> \<le> 1 / 2"
  unfolding round_half_up_def by linarith

lemma round_half_up_shift: "round_half_up (x + real_of_int k) = round_half_up x + k"
  unfolding round_half_up_def by linarith


lemma ready_processor_initialize:
  "initialize 44100 True (new_AudioProcessor (Num (- 20))) = Inr ready_processor"
  by (simp add: initialize_def new_AudioProcessor_def ready_processor_def)

lemma sum_loop_silent: "sum_loop (replicate n 128) sm = sm"
  by (induction n arbitrary: sm) simp_all

lemma rms_silent: "rms_of silent_block = 0"
  by (simp add: rms_of_def silent_block_def sum_loop_silent)

lemma peak_loop_flat: "peak_loop (replicate n 0) i 0 mi = (0, mi)"
  by (induction n arbitrary: i) simp_all

lemma find_peak_flat: "find_peak flat_spectrum = (0, 0)"
proof -
  have "(1024::nat) = Suc 1023" by simp
  then have "flat_spectrum = 0 # replicate 1023 0"
    unfolding flat_spectrum_def by (simp only: replicate_Suc)
  moreover have "peak_loop ((0::8 word) # replicate 1023 0) 0 (- 1) (- 1) = (0, 0)"
    by (simp add: peak_loop_flat)
  ultimately show ?thesis
    by (simp only: find_peak_def)
qed

lemma level_db_silent: "level_db (Num cal) 0 = Num (cal - 20)"
  by (simp add: level_db_def or_else_def log_floor)


lemma or_else_below_floor:
  "or_else (1 / 2000000) (1 / 10 ^ 6) \<noteq> max (1 / 2000000) (1 / 10 ^ 6)"
  by (simp add: or_else_def)

section \<open>The peak of the spectrum\<close>

text \<open>
  What the loop returns from any start: either nothing in the list exceeded \<open>maxVal\<close>
  and the pair is unchanged, or the pair is the value and the index of the first entry
  that is largest.
\<close>

lemma peak_loop_spec:
  "peak_loop ds i mv mi = (mv', mi') \<Longrightarrow>
     (mv' = mv \<and> mi' = mi \<and> (\<forall>j<length ds. uint (ds ! j) \<le> mv))
   \<or> (\<exists>k<length ds. mi' = i + int k \<and> mv' = uint (ds ! k) \<and> mv < mv'
        \<and> (\<forall>j<k. uint (ds ! j) < mv') \<and> (\<forall>j<length ds. uint (ds ! j) \<le> mv'))"
proof (induction ds arbitrary: i mv mi)
  case Nil
  then show ?case by simp
next
  case (Cons d ds)
  show ?case
  proof (cases "uint d > mv")
    case True
    with Cons.prems have run: "peak_loop ds (i + 1) (uint d) i = (mv', mi')" by simp
    from Cons.IH [OF run] show ?thesis
    proof
      assume same: "mv' = uint d \<and> mi' = i \<and> (\<forall>j<length ds. uint (ds ! j) \<le> uint d)"
      have "\<forall>j<length (d # ds). uint ((d # ds) ! j) \<le> mv'"
        using same by (simp add: nth_Cons')
      with same True have "0 < length (d # ds) \<and> mi' = i + int 0 \<and> mv' = uint ((d # ds) ! 0)
          \<and> mv < mv' \<and> (\<forall>j<0. uint ((d # ds) ! j) < mv')
          \<and> (\<forall>j<length (d # ds). uint ((d # ds) ! j) \<le> mv')"
        by simp
      then show ?thesis by blast
    next
      assume "\<exists>k<length ds. mi' = i + 1 + int k \<and> mv' = uint (ds ! k) \<and> uint d < mv'
          \<and> (\<forall>j<k. uint (ds ! j) < mv') \<and> (\<forall>j<length ds. uint (ds ! j) \<le> mv')"
      then obtain k where k: "k < length ds" "mi' = i + 1 + int k" "mv' = uint (ds ! k)"
          "uint d < mv'" "\<forall>j<k. uint (ds ! j) < mv'" "\<forall>j<length ds. uint (ds ! j) \<le> mv'"
        by blast
      have "Suc k < length (d # ds) \<and> mi' = i + int (Suc k) \<and> mv' = uint ((d # ds) ! Suc k)
          \<and> mv < mv' \<and> (\<forall>j<Suc k. uint ((d # ds) ! j) < mv')
          \<and> (\<forall>j<length (d # ds). uint ((d # ds) ! j) \<le> mv')"
        using k True by (auto simp: nth_Cons' less_Suc_eq_0_disj)
      then show ?thesis by blast
    qed
  next
    case False
    with Cons.prems have run: "peak_loop ds (i + 1) mv mi = (mv', mi')" by simp
    from Cons.IH [OF run] show ?thesis
    proof
      assume same: "mv' = mv \<and> mi' = mi \<and> (\<forall>j<length ds. uint (ds ! j) \<le> mv)"
      then have "\<forall>j<length (d # ds). uint ((d # ds) ! j) \<le> mv"
        using False by (auto simp: nth_Cons')
      with same show ?thesis by blast
    next
      assume "\<exists>k<length ds. mi' = i + 1 + int k \<and> mv' = uint (ds ! k) \<and> mv < mv'
          \<and> (\<forall>j<k. uint (ds ! j) < mv') \<and> (\<forall>j<length ds. uint (ds ! j) \<le> mv')"
      then obtain k where k: "k < length ds" "mi' = i + 1 + int k" "mv' = uint (ds ! k)"
          "mv < mv'" "\<forall>j<k. uint (ds ! j) < mv'" "\<forall>j<length ds. uint (ds ! j) \<le> mv'"
        by blast
      have "Suc k < length (d # ds) \<and> mi' = i + int (Suc k) \<and> mv' = uint ((d # ds) ! Suc k)
          \<and> mv < mv' \<and> (\<forall>j<Suc k. uint ((d # ds) ! j) < mv')
          \<and> (\<forall>j<length (d # ds). uint ((d # ds) ! j) \<le> mv')"
        using k False by (auto simp: nth_Cons' less_Suc_eq_0_disj)
      then show ?thesis by blast
    qed
  qed
qed

lemma find_peak_first_max:
  assumes "dataArray \<noteq> []"
  shows "\<exists>k<length dataArray. find_peak dataArray = (uint (dataArray ! k), int k)
           \<and> (\<forall>j<k. dataArray ! j < dataArray ! k)
           \<and> (\<forall>j<length dataArray. dataArray ! j \<le> dataArray ! k)"
proof -
  obtain mv' mi' where run: "peak_loop dataArray 0 (- 1) (- 1) = (mv', mi')"
    by (cases "peak_loop dataArray 0 (- 1) (- 1)")
  have "\<not> (\<forall>j<length dataArray. uint (dataArray ! j) \<le> - 1)"
  proof
    assume "\<forall>j<length dataArray. uint (dataArray ! j) \<le> - 1"
    with assms have "uint (dataArray ! 0) \<le> - 1" by simp
    moreover have "0 \<le> uint (dataArray ! 0)" by simp
    ultimately show False by linarith
  qed
  with peak_loop_spec [OF run] obtain k where k: "k < length dataArray" "mi' = 0 + int k"
      "mv' = uint (dataArray ! k)" "\<forall>j<k. uint (dataArray ! j) < mv'"
      "\<forall>j<length dataArray. uint (dataArray ! j) \<le> mv'"
    by blast
  then show ?thesis
    unfolding find_peak_def run by (auto simp: word_less_def word_le_def)
qed

lemma find_peak_is_max:
  assumes "dataArray \<noteq> []"
  shows "fst (find_peak dataArray) = uint (Max (set dataArray))"
proof -
  from find_peak_first_max [OF assms] obtain k where k: "k < length dataArray"
      "find_peak dataArray = (uint (dataArray ! k), int k)"
      "\<forall>j<length dataArray. dataArray ! j \<le> dataArray ! k"
    by blast
  have "Max (set dataArray) = dataArray ! k"
  proof (rule Max_eqI)
    show "finite (set dataArray)" by simp
    show "dataArray ! k \<in> set dataArray" using k(1) by simp
    show "y \<le> dataArray ! k" if "y \<in> set dataArray" for y
      using that k(3) by (auto simp: in_set_conv_nth)
  qed
  with k(2) show ?thesis by simp
qed

lemma find_peak_tied: "find_peak tied_spectrum = (250, 1)"
  by (simp add: find_peak_def tied_spectrum_def)

lemma bin_frequency_exact:
  "bin_frequency c a i = real_of_int i * sampleRate c / real (fftSize a)"
  by (simp add: bin_frequency_def)

lemma bin_frequency_strict_mono:
  assumes "0 < sampleRate c" and "0 < fftSize a" and "i < j"
  shows "bin_frequency c a i < bin_frequency c a j"
  using assms by (simp add: bin_frequency_def divide_strict_right_mono)

section \<open>Claims about the metrics\<close>

text \<open>
  Claim C1. On an initialized processor the status of a poll is \<open>ABNORMAL\<close> exactly
  when the level exceeds the profile's \<open>maxDb\<close>, or the largest magnitude exceeds 200 and
  the peak frequency lies outside the profile's range; otherwise it is \<open>NORMAL\<close>. The
  level and the peak frequency are the values the classifier receives, before the output
  is rounded. For \<open>maxDb = 72\<close> and the range \<open>[50, 200]\<close> the four rows of the truth
  table hold. The largest magnitude is the first component of \<open>find_peak\<close>.
\<close>

theorem status_classification:
  assumes "analyser p = Some a" and "audioCtx p = Some c"
  shows "status (getMetrics p standard dataArray timeData) =
           (if num_gt (level_db (calibrationOffset p) (rms_of timeData)) (Num (maxDb standard))
               \<or> (fst (find_peak dataArray) > 200
                   \<and> (bin_frequency c a (snd (find_peak dataArray)) < fst (peakFreqRange standard)
                      \<or> bin_frequency c a (snd (find_peak dataArray)) > snd (peakFreqRange standard)))
            then ABNORMAL else NORMAL)
         \<and> (dataArray \<noteq> [] \<longrightarrow> fst (find_peak dataArray) = uint (Max (set dataArray)))
         \<and> classify (standard\<lparr>maxDb := 72, peakFreqRange := (50, 200)\<rparr>) (Num 75) 100 0 = ABNORMAL
         \<and> classify (standard\<lparr>maxDb := 72, peakFreqRange := (50, 200)\<rparr>) (Num 60) 500 50 = NORMAL
         \<and> classify (standard\<lparr>maxDb := 72, peakFreqRange := (50, 200)\<rparr>) (Num 60) 500 220 = ABNORMAL
         \<and> classify (standard\<lparr>maxDb := 72, peakFreqRange := (50, 200)\<rparr>) (Num 60) 100 220 = NORMAL"
proof -
  have "status (getMetrics p standard dataArray timeData) =
      classify standard (level_db (calibrationOffset p) (rms_of timeData))
        (bin_frequency c a (snd (find_peak dataArray))) (fst (find_peak dataArray))"
    by (simp add: getMetrics_initialized [OF assms])
  then show ?thesis
    by (auto simp: classify_def Let_def find_peak_is_max)
qed

theorem status_classification_witness:
  "analyser ready_processor = Some \<lparr>fftSize = 2048, smoothingTimeConstant = 1 / 2\<rparr>
   \<and> audioCtx ready_processor = Some \<lparr>sampleRate = 44100, ctx_closed = False\<rparr>
   \<and> flat_spectrum \<noteq> []
   \<and> fst (find_peak flat_spectrum) = uint (Max (set flat_spectrum))
   \<and> status (getMetrics ready_processor washing_machine flat_spectrum silent_block) = NORMAL"
proof -
  have h: "analyser ready_processor = Some \<lparr>fftSize = 2048, smoothingTimeConstant = 1 / 2\<rparr>"
    "audioCtx ready_processor = Some \<lparr>sampleRate = 44100, ctx_closed = False\<rparr>"
    by (simp_all add: ready_processor_def)
  have "calibrationOffset ready_processor = Num (- 20)"
    by (simp add: ready_processor_def)
  moreover have "flat_spectrum \<noteq> []"
    by (simp add: flat_spectrum_def)
  ultimately show ?thesis
    using status_classification [OF h, of washing_machine flat_spectrum silent_block] h
    by (simp add: rms_silent level_db_silent find_peak_flat washing_machine_def)
qed



text \<open>
  Claim C6, as amended. On an initialized processor and a fixed block, for two offsets
  that are whole multiples of one half in the range from \<open>-60\<close> to \<open>60\<close> (the positions of
  the slider, whose step is 0.5; \<open>m\<close> and \<open>n\<close> count the halves), the reported, rounded
  \<open>db\<close> at the second exceeds the one at the first by exactly their difference.
\<close>

theorem calibration_shift:
  assumes "analyser p = Some a" and "audioCtx p = Some c"
    and "- 120 \<le> m" and "m \<le> 120" and "- 120 \<le> n" and "n \<le> 120"
  shows "db (getMetrics (setCalibration (Num (real_of_int n / 2)) p)
               standard dataArray timeData)
           = num_add (db (getMetrics (setCalibration (Num (real_of_int m / 2)) p)
                            standard dataArray timeData))
               (Num (real_of_int n / 2 - real_of_int m / 2))"
proof -
  define base where "base = 20 * log 10 (or_else (rms_of timeData) (1 / 10 ^ 6)) + 100"
  have init: "analyser (setCalibration x p) = Some a" "audioCtx (setCalibration x p) = Some c"
    for x
    using assms(1,2) by (simp_all add: setCalibration_def)
  have cal: "calibrationOffset (setCalibration x p) = x" for x
    by (simp add: setCalibration_def)
  have reported: "db (getMetrics (setCalibration (Num x) p) standard dataArray timeData)
      = Num (real_of_int (round_half_up ((base + x) * 10)) / 10)" for x
    using getMetrics_initialized [OF init, of "Num x" standard dataArray timeData]
    by (simp add: cal level_db_def base_def)
  have "(base + real_of_int n / 2) * 10
      = (base + real_of_int m / 2) * 10 + real_of_int (5 * (n - m))"
    by (simp add: algebra_simps)
  then have "round_half_up ((base + real_of_int n / 2) * 10)
      = round_half_up ((base + real_of_int m / 2) * 10) + 5 * (n - m)"
    by (simp only: round_half_up_shift)
  then show ?thesis
    by (simp add: reported add_divide_distrib diff_divide_distrib)
qed

theorem calibration_shift_witness:
  "analyser ready_processor = Some \<lparr>fftSize = 2048, smoothingTimeConstant = 1 / 2\<rparr>
   \<and> audioCtx ready_processor = Some \<lparr>sampleRate = 44100, ctx_closed = False\<rparr>
   \<and> (- 120 :: int) \<le> - 40 \<and> (- 40 :: int) \<le> 120
   \<and> (- 120 :: int) \<le> - 39 \<and> (- 39 :: int) \<le> 120
   \<and> db (getMetrics (setCalibration (Num (real_of_int (- 39) / 2)) ready_processor)
            washing_machine flat_spectrum silent_block)
       = num_add (db (getMetrics (setCalibration (Num (real_of_int (- 40) / 2)) ready_processor)
                        washing_machine flat_spectrum silent_block))
           (Num (real_of_int (- 39) / 2 - real_of_int (- 40) / 2))"
proof -
  have h: "analyser ready_processor = Some \<lparr>fftSize = 2048, smoothingTimeConstant = 1 / 2\<rparr>"
    "audioCtx ready_processor = Some \<lparr>sampleRate = 44100, ctx_closed = False\<rparr>"
    "(- 120 :: int) \<le> - 40" "(- 40 :: int) \<le> 120"
    "(- 120 :: int) \<le> - 39" "(- 39 :: int) \<le> 120"
    by (simp_all add: ready_processor_def)
  from calibration_shift [OF h, of washing_machine flat_spectrum silent_block] h
  show ?thesis by blast
qed

text \<open>
  The claim as it stands, for every pair of offsets in the range, fails off that grid: on
  the silent block the offsets 0 and 0.05 are reported as \<open>-20\<close> and \<open>-19.9\<close>, a
  difference of 0.1.
\<close>

theorem calibration_shift_counterexample:
  "db (getMetrics (setCalibration (Num (0 + 1 / 20)) ready_processor)
         washing_machine flat_spectrum silent_block)
     \<noteq> num_add (db (getMetrics (setCalibration (Num 0) ready_processor)
                       washing_machine flat_spectrum silent_block))
           (Num (1 / 20))"
proof -
  have init: "analyser (setCalibration x ready_processor)
        = Some \<lparr>fftSize = 2048, smoothingTimeConstant = 1 / 2\<rparr>"
    "audioCtx (setCalibration x ready_processor)
        = Some \<lparr>sampleRate = 44100, ctx_closed = False\<rparr>" for x
    by (simp_all add: setCalibration_def ready_processor_def)
  have cal: "calibrationOffset (setCalibration x ready_processor) = x" for x
    by (simp add: setCalibration_def)
  have reported: "db (getMetrics (setCalibration (Num x) ready_processor)
        washing_machine flat_spectrum silent_block)
      = Num (real_of_int (round_half_up ((x - 20) * 10)) / 10)" for x
    using getMetrics_initialized [OF init, of "Num x" washing_machine flat_spectrum silent_block]
    by (simp add: cal rms_silent level_db_silent)
  have "round_half_up ((0 + 1 / 20 - 20) * 10) = - 199"
    by (simp add: round_half_up_def)
  moreover have "round_half_up ((0 - 20) * 10) = - 200"
    by (simp add: round_half_up_def)
  ultimately show ?thesis
    by (simp add: reported)
qed

text \<open>
  Claim C7. For a magnitude array that is not empty (the analyser fills
  \<open>frequencyBinCount\<close> bins) the loop selects the first index \<open>k\<close> of the largest value;
  the frequency is \<open>k * sampleRate / fftSize\<close>, and the reported peak frequency is that
  value rounded to a nearest integer (a tie goes up). The transform size and the sample
  rate are positive, and the mapping from bins to Hertz is strictly increasing.
\<close>

theorem peak_frequency_extraction:
  assumes "analyser p = Some a" and "audioCtx p = Some c" and "dataArray \<noteq> []"
    and "0 < fftSize a" and "0 < sampleRate c"
  shows "\<exists>k<length dataArray.
           (\<forall>j<length dataArray. dataArray ! j \<le> dataArray ! k)
         \<and> (\<forall>j<k. dataArray ! j < dataArray ! k)
         \<and> find_peak dataArray = (uint (dataArray ! k), int k)
         \<and> bin_frequency c a (int k) = real k * sampleRate c / real (fftSize a)
         \<and> peakFrequency (getMetrics p standard dataArray timeData)
             = real_of_int (round_half_up (real k * sampleRate c / real (fftSize a)))
         \<and> \<bar>peakFrequency (getMetrics p standard dataArray timeData)
              - real k * sampleRate c / real (fftSize a)\<bar> \<le> 1 / 2
         \<and> (\<forall>i j. i < j \<longrightarrow> bin_frequency c a i < bin_frequency c a j)"
proof -
  from find_peak_first_max [OF assms(3)] obtain k where k: "k < length dataArray"
      "find_peak dataArray = (uint (dataArray ! k), int k)"
      "\<forall>j<k. dataArray ! j < dataArray ! k"
      "\<forall>j<length dataArray. dataArray ! j \<le> dataArray ! k"
    by blast
  have hz: "bin_frequency c a (int k) = real k * sampleRate c / real (fftSize a)"
    by (simp add: bin_frequency_exact)
  have pf: "peakFrequency (getMetrics p standard dataArray timeData)
      = real_of_int (round_half_up (real k * sampleRate c / real (fftSize a)))"
    by (simp add: getMetrics_initialized [OF assms(1,2)] k(2) hz)
  have near: "\<bar>peakFrequency (getMetrics p standard dataArray timeData)
      - real k * sampleRate c / real (fftSize a)\<bar> \<le> 1 / 2"
    unfolding pf by (rule round_half_up_near)
  have mono: "\<forall>i j. i < j \<longrightarrow> bin_frequency c a i < bin_frequency c a j"
    using bin_frequency_strict_mono [OF assms(5,4)] by blast
  from k(1) k(4) k(3) k(2) hz pf near mono show ?thesis by blast
qed

theorem peak_frequency_extraction_witness:
  "analyser ready_processor = Some \<lparr>fftSize = 2048, smoothingTimeConstant = 1 / 2\<rparr>
   \<and> audioCtx ready_processor = Some \<lparr>sampleRate = 44100, ctx_closed = False\<rparr>
   \<and> flat_spectrum \<noteq> []
   \<and> find_peak flat_spectrum = (0, 0)
   \<and> peakFrequency (getMetrics ready_processor washing_machine flat_spectrum silent_block) = 0
   \<and> 0 < sampleRate \<lparr>sampleRate = 44100, ctx_closed = False\<rparr>
   \<and> 0 < fftSize \<lparr>fftSize = 2048, smoothingTimeConstant = 1 / 2\<rparr>
   \<and> bin_frequency \<lparr>sampleRate = 44100, ctx_closed = False\<rparr>
         \<lparr>fftSize = 2048, smoothingTimeConstant = 1 / 2\<rparr> 1
       < bin_frequency \<lparr>sampleRate = 44100, ctx_closed = False\<rparr>
           \<lparr>fftSize = 2048, smoothingTimeConstant = 1 / 2\<rparr> 2"
proof -
  have h: "analyser ready_processor = Some \<lparr>fftSize = 2048, smoothingTimeConstant = 1 / 2\<rparr>"
    "audioCtx ready_processor = Some \<lparr>sampleRate = 44100, ctx_closed = False\<rparr>"
    "flat_spectrum \<noteq> []"
    "0 < fftSize \<lparr>fftSize = 2048, smoothingTimeConstant = 1 / 2\<rparr>"
    "0 < sampleRate \<lparr>sampleRate = 44100, ctx_closed = False\<rparr>"
    by (simp_all add: ready_processor_def flat_spectrum_def)
  from peak_frequency_extraction [OF h, of washing_machine silent_block]
  obtain k where k: "find_peak flat_spectrum = (uint (flat_spectrum ! k), int k)"
    "peakFrequency (getMetrics ready_processor washing_machine flat_spectrum silent_block)
       = real_of_int (round_half_up (real k * sampleRate \<lparr>sampleRate = 44100, ctx_closed = False\<rparr>
           / real (fftSize \<lparr>fftSize = 2048, smoothingTimeConstant = 1 / 2\<rparr>)))"
    "(\<forall>i j. i < j \<longrightarrow>
        bin_frequency \<lparr>sampleRate = 44100, ctx_closed = False\<rparr>
          \<lparr>fftSize = 2048, smoothingTimeConstant = 1 / 2\<rparr> i
        < bin_frequency \<lparr>sampleRate = 44100, ctx_closed = False\<rparr>
            \<lparr>fftSize = 2048, smoothingTimeConstant = 1 / 2\<rparr> j)"
    by blast
  from k(1) have "k = 0" by (simp add: find_peak_flat)
  with k(2) have "peakFrequency (getMetrics ready_processor washing_machine flat_spectrum
      silent_block) = 0"
    by (simp add: round_half_up_def)
  moreover from k(3) have "bin_frequency \<lparr>sampleRate = 44100, ctx_closed = False\<rparr>
         \<lparr>fftSize = 2048, smoothingTimeConstant = 1 / 2\<rparr> 1
       < bin_frequency \<lparr>sampleRate = 44100, ctx_closed = False\<rparr>
           \<lparr>fftSize = 2048, smoothingTimeConstant = 1 / 2\<rparr> 2"
    by simp
  ultimately show ?thesis using h by (simp add: find_peak_flat)
qed

text \<open>
  Claim C9. A poll before the processor is initialized returns the zero snapshot with
  status \<open>IDLE\<close>; \<open>getMetrics\<close> has no failing branch.
\<close>

theorem uninitialized_poll:
  assumes "analyser p = None \<or> audioCtx p = None"
  shows "getMetrics p standard dataArray timeData =
           \<lparr>db = Num 0, peakFrequency = 0, isStable = False, status = IDLE\<rparr>"
  using assms by (auto simp: getMetrics_def zero_metrics_def split: option.splits)

theorem uninitialized_poll_witness:
  "(analyser (new_AudioProcessor (Num (- 20))) = None
      \<or> audioCtx (new_AudioProcessor (Num (- 20))) = None)
   \<and> getMetrics (new_AudioProcessor (Num (- 20))) washing_machine flat_spectrum silent_block =
       \<lparr>db = Num 0, peakFrequency = 0, isStable = False, status = IDLE\<rparr>"
  using uninitialized_poll [of "new_AudioProcessor (Num (- 20))" washing_machine
      flat_spectrum silent_block]
  by (simp add: new_AudioProcessor_def)

text \<open>
  Claim C10. Once the processor is initialized every poll has status \<open>NORMAL\<close> or
  \<open>ABNORMAL\<close>, for every block and profile; the status is \<open>IDLE\<close> exactly when the
  processor is not initialized.
\<close>

theorem initialized_status:
  "(initialized p \<longrightarrow> status (getMetrics p standard dataArray timeData) \<in> {NORMAL, ABNORMAL})
   \<and> (status (getMetrics p standard dataArray timeData) = IDLE \<longleftrightarrow> \<not> initialized p)"
proof (cases "initialized p")
  case True
  then obtain a c where ac: "analyser p = Some a" "audioCtx p = Some c"
    by (auto simp: initialized_def)
  have "status (getMetrics p standard dataArray timeData) \<in> {NORMAL, ABNORMAL}"
    using classify_cases by (simp add: getMetrics_initialized [OF ac])
  with True show ?thesis by auto
next
  case False
  then show ?thesis
    by (simp add: getMetrics_uninitialized zero_metrics_def)
qed

theorem initialized_status_witness:
  "initialized ready_processor
   \<and> status (getMetrics ready_processor washing_machine flat_spectrum silent_block)
       \<in> {NORMAL, ABNORMAL}
   \<and> status (getMetrics ready_processor washing_machine flat_spectrum silent_block) \<noteq> IDLE"
proof -
  have "initialized ready_processor"
    by (simp add: initialized_def ready_processor_def)
  with initialized_status [of ready_processor washing_machine flat_spectrum silent_block]
  show ?thesis by simp
qed

section \<open>Claims about the history\<close>

text \<open>
  Claim C5. \<open>saveToHistory\<close> puts the new record at the front and keeps at most 50
  entries; on a history of 50 the last entry (the first inserted) is dropped and 50 remain.
\<close>

theorem history_retention:
  "history (saveToHistory uuid now machine finalMetrics s)
     = take 50 (new_entry uuid now machine finalMetrics # history s)
   \<and> hd (history (saveToHistory uuid now machine finalMetrics s))
       = new_entry uuid now machine finalMetrics
   \<and> length (history (saveToHistory uuid now machine finalMetrics s)) \<le> 50
   \<and> (length (history s) < 50 \<longrightarrow>
        history (saveToHistory uuid now machine finalMetrics s)
          = new_entry uuid now machine finalMetrics # history s)
   \<and> (length (history s) = 50 \<longrightarrow>
        history (saveToHistory uuid now machine finalMetrics s)
          = new_entry uuid now machine finalMetrics # butlast (history s)
        \<and> length (history (saveToHistory uuid now machine finalMetrics s)) = 50)"
  by (simp add: saveToHistory_def Let_def butlast_conv_take take_Cons')


theorem history_retention_witness:
  "length (history full_App) = 50
   \<and> history (saveToHistory ''new'' 1 washing_machine zero_metrics full_App)
       = new_entry ''new'' 1 washing_machine zero_metrics # butlast (history full_App)
   \<and> length (history (saveToHistory ''new'' 1 washing_machine zero_metrics full_App)) = 50"
proof -
  have "length (history full_App) = 50"
    by (simp add: full_App_def initial_App_def full_history_def)
  with history_retention [of "''new''" 1 washing_machine zero_metrics full_App]
  show ?thesis by blast
qed

section \<open>The session\<close>

lemma invariant_init: "session_invariant (initial_App ls)"
  by (simp add: session_invariant_def initial_App_def)

lemma invariant_stop: "session_invariant (stopMeasurement uuid now s)"
  by (simp add: session_invariant_def stopMeasurement_def saveToHistory_def Let_def
      split: option.splits)

lemma stop_clears_running: "\<not> isMeasuring (stopMeasurement uuid now s)"
  by (simp add: stopMeasurement_def saveToHistory_def Let_def split: option.splits)

lemma invariant_step:
  assumes "session_invariant s"
  shows "session_invariant (step e s)"
proof (cases e)
  case (SelectMachine m)
  with assms show ?thesis by (auto simp: session_invariant_def selectMachine_def)
next
  case StartCall
  with assms show ?thesis
    by (auto simp: session_invariant_def startMeasurement_call_def split: option.splits)
next
  case (StartResume i rate granted)
  with assms show ?thesis
    by (auto simp: session_invariant_def startMeasurement_resume_def Let_def
        split: sum.splits)
next
  case (Stop uuid now)
  then show ?thesis by (simp add: invariant_stop)
next
  case (Reset uuid now)
  with invariant_stop [of uuid now s] stop_clears_running [of uuid now s] show ?thesis
    by (auto simp: session_invariant_def resetToMenu_def)
next
  case (Expire uuid now)
  with assms show ?thesis by (simp add: countdown_effect_def invariant_stop)
next
  case Tick
  with assms show ?thesis
    by (auto simp: session_invariant_def countdown_tick_def split: option.splits)
next
  case (Poll dataArray timeData handle)
  with assms show ?thesis
    by (auto simp: session_invariant_def update_def Let_def split: option.splits)
next
  case (CalibrationChange val)
  with assms show ?thesis
    by (auto simp: session_invariant_def handleCalibrationChange_def Let_def)
next
  case (ClearHistory confirmed)
  with assms show ?thesis by (auto simp: session_invariant_def clearHistory_def)
qed

lemma reachable_invariant: "reachable s \<Longrightarrow> session_invariant s"
  by (induction rule: reachable.induct) (simp_all add: invariant_init invariant_step)

lemma reachable_ticks: "reachable s \<Longrightarrow> reachable (ticks n s)"
proof (induction n arbitrary: s)
  case 0
  then show ?case by simp
next
  case (Suc n)
  from Suc.prems have "reachable (step Tick s)" by (rule reachable_step)
  then have "reachable (ticks n (step Tick s))" by (rule Suc.IH)
  then show ?case by (simp only: ticks.simps)
qed

lemma reachable_armed: "reachable armed_App"
  unfolding armed_App_def by (intro reachable_step reachable_init)

lemma reachable_running: "reachable running_App"
  unfolding running_App_def by (intro reachable_step reachable_armed)

lemma reachable_abandoned: "reachable abandoned_App"
  unfolding abandoned_App_def by (intro reachable_step reachable_armed)

lemma reachable_expiring: "reachable expiring_App"
  unfolding expiring_App_def by (intro reachable_ticks reachable_running)

lemma reachable_finished: "reachable finished_App"
  unfolding finished_App_def by (intro reachable_step reachable_expiring)

lemma running_App_eq:
  "running_App = (initial_App Map.empty)
     \<lparr>selectedMachine := Some washing_machine, isMeasuring := True,
      countdown := Some 10, audioProcessorRef := Some ready_processor\<rparr>"
  by (simp add: running_App_def armed_App_def selectMachine_def startMeasurement_call_def
      startMeasurement_resume_def initialize_def new_AudioProcessor_def initial_App_def
      ready_processor_def DEFAULT_CALIBRATION_OFFSET_def)

lemma expiring_App_eq: "expiring_App = running_App\<lparr>countdown := Some 0\<rparr>"
  by (simp add: expiring_App_def running_App_eq countdown_tick_def eval_nat_numeral)

text \<open>
  The abandoned start: the reset has cleared the machine, and the continuation has made
  the state measuring all the same.
\<close>

lemma abandoned_App_eq:
  "abandoned_App = (initial_App Map.empty)
     \<lparr>isMeasuring := True, countdown := Some 10,
      audioProcessorRef := Some ready_processor\<rparr>"
  by (simp add: abandoned_App_def armed_App_def selectMachine_def startMeasurement_call_def
      startMeasurement_resume_def resetToMenu_def stopMeasurement_def Let_def
      initialize_def new_AudioProcessor_def initial_App_def ready_processor_def
      DEFAULT_CALIBRATION_OFFSET_def)

lemma abandoned_ticks:
  "ticks 10 abandoned_App = abandoned_App\<lparr>countdown := Some 0\<rparr>"
  by (simp add: abandoned_App_eq countdown_tick_def eval_nat_numeral)

lemma stop_running:
  assumes "isMeasuring s" and "selectedMachine s = Some m"
  shows "history (stopMeasurement uuid now s)
           = take 50 (new_entry uuid now m (metricsRef s) # history s)"
    and "\<not> isMeasuring (stopMeasurement uuid now s)"
  using assms
  by (simp_all add: stopMeasurement_def saveToHistory_def Let_def split: option.splits)

lemma stop_without_machine:
  assumes "selectedMachine s = None"
  shows "history (stopMeasurement uuid now s) = history s"
  using assms
  by (simp add: stopMeasurement_def saveToHistory_def Let_def split: option.splits)

lemma stop_not_running:
  assumes "\<not> isMeasuring s"
  shows "history (stopMeasurement uuid now s) = history s"
    and "\<not> isMeasuring (stopMeasurement uuid now s)"
  using assms
  by (simp_all add: stopMeasurement_def saveToHistory_def Let_def split: option.splits)

lemma stop_idle:
  assumes "session_invariant s" and "\<not> isMeasuring s"
  shows "stopMeasurement uuid now s = s\<lparr>hasFinishedTest := True\<rparr>"
  using assms
  by (auto simp: session_invariant_def stopMeasurement_def Let_def split: option.splits)

lemma reset_history: "history (resetToMenu uuid now s) = history (stopMeasurement uuid now s)"
  and reset_running: "isMeasuring (resetToMenu uuid now s) = isMeasuring (stopMeasurement uuid now s)"
  by (simp_all add: resetToMenu_def)

lemma other_events_keep_history:
  "history (step Tick s) = history s"
  "history (step (Poll dataArray timeData handle) s) = history s"
  "history (step (CalibrationChange val) s) = history s"
  "history (step (SelectMachine m) s) = history s"
  "history (step StartCall s) = history s"
  "history (step (StartResume i rate granted) s) = history s"
  by (simp_all add: countdown_tick_def update_def handleCalibrationChange_def selectMachine_def
      startMeasurement_call_def startMeasurement_resume_def Let_def
      split: option.splits sum.splits)

lemma start_enters_running:
  assumes "selectedMachine s = Some m"
  shows "isMeasuring (startMeasurement rate True s)"
    and "countdown (startMeasurement rate True s) = Some 10"
  using assms
  by (simp_all add: startMeasurement_def startMeasurement_call_def
      startMeasurement_resume_def initialize_def Let_def)

lemma start_refused: "startMeasurement rate False s = s"
  by (simp add: startMeasurement_def startMeasurement_call_def startMeasurement_resume_def
      initialize_def Let_def split: option.splits)

text \<open>
  While a machine is selected, a measuring session ends with exactly one new record at the
  front of the history, whichever of the three ways ends it; when the state is not
  measuring the same three add nothing.
\<close>

lemma one_record_with_machine:
  assumes "isMeasuring s" and "selectedMachine s = Some machine"
  shows "history (stopMeasurement uuid now s)
           = take 50 (new_entry uuid now machine (metricsRef s) # history s)"
    and "history (resetToMenu uuid now s)
           = take 50 (new_entry uuid now machine (metricsRef s) # history s)"
    and "countdown s = Some 0 \<Longrightarrow>
         history (countdown_effect uuid now s)
           = take 50 (new_entry uuid now machine (metricsRef s) # history s)"
    and "\<not> isMeasuring (stopMeasurement uuid now s)"
    and "\<not> isMeasuring (resetToMenu uuid now s)"
  using stop_running [OF assms, of uuid now]
  by (simp_all add: reset_history reset_running countdown_effect_def)

lemma no_record_when_not_running:
  assumes "\<not> isMeasuring s"
  shows "history (stopMeasurement uuid now s) = history s"
    and "history (resetToMenu uuid now s) = history s"
    and "history (countdown_effect uuid now s) = history s"
  using assms by (simp_all add: reset_history stop_not_running countdown_effect_def)

section \<open>Claims about the session\<close>

text \<open>
  Claim C3 says that every session that reaches the running state produces exactly one
  record, however it ends. The component does not keep to it. \<open>startMeasurement\<close> tests
  \<open>selectedMachine\<close> before it awaits the initialization and sets \<open>isMeasuring\<close> after it
  without a second test, and the page offers the way back to the menu all the while. When
  the user takes it, the state \<open>abandoned_App\<close> is reached: measuring, the countdown at 10,
  no machine selected. \<open>stopMeasurement\<close> saves a record only when a machine is selected,
  so this session ends with none, by the countdown as by a stop or a reset.
\<close>

theorem start_race_no_record:
  "reachable abandoned_App
   \<and> isMeasuring abandoned_App
   \<and> countdown abandoned_App = Some 10
   \<and> selectedMachine abandoned_App = None
   \<and> history abandoned_App = []
   \<and> isMeasuring (ticks 10 abandoned_App)
   \<and> countdown (ticks 10 abandoned_App) = Some 0
   \<and> \<not> isMeasuring (countdown_effect ''r1'' 1 (ticks 10 abandoned_App))
   \<and> history (countdown_effect ''r1'' 1 (ticks 10 abandoned_App)) = []
   \<and> history (stopMeasurement ''r1'' 1 abandoned_App) = []
   \<and> history (resetToMenu ''r1'' 1 abandoned_App) = []"
proof -
  have a: "isMeasuring abandoned_App" "countdown abandoned_App = Some 10"
      "selectedMachine abandoned_App = None" "history abandoned_App = []"
    by (simp_all add: abandoned_App_eq initial_App_def)
  have t: "isMeasuring (ticks 10 abandoned_App)" "countdown (ticks 10 abandoned_App) = Some 0"
      "selectedMachine (ticks 10 abandoned_App) = None" "history (ticks 10 abandoned_App) = []"
    by (simp_all add: abandoned_ticks a)
  have e: "countdown_effect ''r1'' 1 (ticks 10 abandoned_App)
      = stopMeasurement ''r1'' 1 (ticks 10 abandoned_App)"
    by (simp add: countdown_effect_def t(2))
  have "history (countdown_effect ''r1'' 1 (ticks 10 abandoned_App)) = []"
    unfolding e by (simp add: stop_without_machine [OF t(3)] t(4))
  moreover have "\<not> isMeasuring (countdown_effect ''r1'' 1 (ticks 10 abandoned_App))"
    unfolding e by (rule stop_clears_running)
  moreover have "history (stopMeasurement ''r1'' 1 abandoned_App) = []"
    by (simp add: stop_without_machine [OF a(3)] a(4))
  moreover have "history (resetToMenu ''r1'' 1 abandoned_App) = []"
    by (simp add: reset_history stop_without_machine [OF a(3)] a(4))
  ultimately show ?thesis
    using reachable_abandoned a t by simp
qed

text \<open>
  Claim C8, as amended. In a reachable state that is not measuring, \<open>stopMeasurement\<close>
  saves no record and changes nothing but the finished flag, which it sets: the running
  flag, the countdown, the history, the processor ref and the storage stay as they are. In
  the state \<open>FINISHED\<close> the flag is already set and the call changes nothing.
\<close>

theorem stop_when_not_running:
  assumes "reachable s" and "\<not> isMeasuring s"
  shows "stopMeasurement uuid now s = s\<lparr>hasFinishedTest := True\<rparr>
       \<and> (session_state_of s = FINISHED \<longrightarrow> stopMeasurement uuid now s = s)"
proof -
  have eq: "stopMeasurement uuid now s = s\<lparr>hasFinishedTest := True\<rparr>"
    using reachable_invariant [OF assms(1)] assms(2) by (rule stop_idle)
  have "session_state_of s = FINISHED \<longrightarrow> hasFinishedTest s"
    by (simp add: session_state_of_def split: if_splits)
  then show ?thesis by (auto simp: eq)
qed

theorem stop_when_not_running_witness:
  "reachable finished_App \<and> \<not> isMeasuring finished_App
   \<and> session_state_of finished_App = FINISHED
   \<and> stopMeasurement ''r2'' 2 finished_App = finished_App"
proof -
  have f: "\<not> isMeasuring finished_App"
    by (simp add: finished_App_def stop_clears_running)
  have "selectedMachine finished_App = Some washing_machine \<and> hasFinishedTest finished_App"
    by (simp add: finished_App_def expiring_App_eq running_App_eq initial_App_def
        stopMeasurement_def saveToHistory_def Let_def)
  with f have "session_state_of finished_App = FINISHED"
    by (simp add: session_state_of_def)
  with stop_when_not_running [OF reachable_finished f, of "''r2''" 2] f reachable_finished
  show ?thesis by blast
qed

text \<open>
  The claim as it stands fails in the state with no machine selected: the component's
  first state has the finished flag unset, and \<open>stopMeasurement\<close> sets it.
\<close>

theorem stop_when_idle_counterexample:
  "session_state_of (initial_App Map.empty) = Idle
   \<and> hasFinishedTest (initial_App Map.empty) = False
   \<and> hasFinishedTest (stopMeasurement ''r1'' 1 (initial_App Map.empty)) = True"
  by (simp add: session_state_of_def initial_App_def stopMeasurement_def Let_def)

section \<open>Claims about the calibration\<close>

lemma parseFloat_75: "parseFloat ''75'' = Num 75"
  by (simp add: parseFloat_def is_digit_def is_space_def)

lemma parseFloat_abc: "parseFloat ''abc'' = NaN"
  by (simp add: parseFloat_def is_digit_def is_space_def)

lemma parseFloat_slider: "parseFloat ''-12.5'' = Num (- 25 / 2)"
  by (simp add: parseFloat_def is_digit_def is_space_def)

text \<open>
  Claim C4, as amended. A calibration request is never refused: whatever the text,
  \<open>handleCalibrationChange\<close> makes \<open>parseFloat\<close> of it the calibration offset (\<open>NaN\<close>
  when it does not parse), stores the text under the calibration key and hands the number
  to the live processor, and \<open>setCalibration\<close> stores what it is given. No range is
  checked; the bounds \<open>-60\<close> and \<open>60\<close> are those of the slider that issues the requests.
\<close>

theorem calibration_request_applied:
  "calibrationOffsetState (handleCalibrationChange val s) = parseFloat val
   \<and> localStorage (handleCalibrationChange val s) CALIBRATION_STORAGE_KEY = Some (Text val)
   \<and> audioProcessorRef (handleCalibrationChange val s)
       = map_option (setCalibration (parseFloat val)) (audioProcessorRef s)
   \<and> calibrationOffset (setCalibration (parseFloat val) p) = parseFloat val"
  by (simp add: handleCalibrationChange_def setCalibration_def Let_def)

text \<open>
  The claim as it stands fails: with the default offset \<open>-20\<close> stored, the request
  \<open>75\<close> (outside the range) stores 75 and the request \<open>abc\<close> stores \<open>NaN\<close>.
\<close>

theorem calibration_request_counterexample:
  "calibrationOffsetState (initial_App Map.empty) = Num (- 20)
   \<and> calibrationOffsetState (handleCalibrationChange ''75'' (initial_App Map.empty)) = Num 75
   \<and> calibrationOffsetState (handleCalibrationChange ''abc'' (initial_App Map.empty)) = NaN"
  by (simp add: handleCalibrationChange_def Let_def parseFloat_75 parseFloat_abc
      initial_App_def DEFAULT_CALIBRATION_OFFSET_def)

end
